theory Spec2Isabelle
  imports Complex_Main "HOL-Library.Multiset"
begin

section \<open>Strings\<close>

text \<open>
  A Python \<open>str\<close> is a sequence of Unicode code points. Free text (tags, signal types,
  names, symbols) is a list of code points; identifiers that the code uses as dictionary
  keys or as enumeration values are plain ASCII and are kept as \<open>string\<close>.
\<close>

type_synonym ustr = "nat list"

definition asc :: "string \<Rightarrow> ustr" where
  "asc s = map (\<lambda>c. of_char c) s"

text \<open>\<open>needle in s\<close> on Python strings: \<open>needle\<close> occurs as a contiguous run of \<open>s\<close>.\<close>

fun py_in :: "'a list \<Rightarrow> 'a list \<Rightarrow> bool" where
  "py_in needle [] = (needle = [])"
| "py_in needle (x # xs) = (take (length needle) (x # xs) = needle \<or> py_in needle xs)"

section \<open>Numbers and time\<close>

text \<open>
  Numbers that Python holds as floats are real numbers here: the model computes with exact
  arithmetic and says nothing about rounding. A \<open>datetime\<close> is a day (a day number) and
  the time within the day.
\<close>

type_synonym datetime = "int \<times> nat"


section \<open>Weight optimizer (weekly\_analysis.py)\<close>
























section \<open>Persistent store (data\_store.py)\<close>

























section \<open>Python values and errors\<close>

text \<open>
  An exception is a value: a function that can raise returns \<open>py_error + 'a\<close>, with
  \<open>Inl\<close> for the exception, and \<open>bind_err\<close> passes the first exception on, as control
  leaves the Python function at the first \<open>raise\<close>. A division whose divisor the code
  does not test right before it is written with \<open>py_div\<close>.
\<close>

datatype py_error = ZeroDivisionError | IndexError | ValueError

definition bind_err :: "py_error + 'a \<Rightarrow> ('a \<Rightarrow> py_error + 'b) \<Rightarrow> py_error + 'b" where
  "bind_err m f = (case m of Inl e \<Rightarrow> Inl e | Inr x \<Rightarrow> f x)"

fun map_err :: "('a \<Rightarrow> py_error + 'b) \<Rightarrow> 'a list \<Rightarrow> py_error + 'b list" where
  "map_err f [] = Inr []"
| "map_err f (x # xs) =
     bind_err (f x) (\<lambda>y. bind_err (map_err f xs) (\<lambda>ys. Inr (y # ys)))"

definition py_div :: "real \<Rightarrow> real \<Rightarrow> py_error + real" where
  "py_div a b = (if b = 0 then Inl ZeroDivisionError else Inr (a / b))"

text \<open>\<open>range(a, b)\<close>.\<close>

definition py_range :: "int \<Rightarrow> int \<Rightarrow> int list" where
  "py_range a b = map (\<lambda>k. a + int k) [0..<nat (b - a)]"

text \<open>
  Slices: a negative bound counts from the end, and every bound is clamped to the list.
  \<open>py_slice xs i j\<close> is \<open>xs[i:j]\<close>, \<open>py_from xs i\<close> is \<open>xs[i:]\<close>, \<open>py_upto xs j\<close> is
  \<open>xs[:j]\<close>.
\<close>

definition clamp_index :: "nat \<Rightarrow> int \<Rightarrow> nat" where
  "clamp_index n i = (if i < 0 then nat (i + int n) else min (nat i) n)"

definition py_slice :: "'a list \<Rightarrow> int \<Rightarrow> int \<Rightarrow> 'a list" where
  "py_slice xs i j =
     (let a = clamp_index (length xs) i; b = clamp_index (length xs) j
      in take (b - a) (drop a xs))"

definition py_from :: "'a list \<Rightarrow> int \<Rightarrow> 'a list" where
  "py_from xs i = drop (clamp_index (length xs) i) xs"

definition py_upto :: "'a list \<Rightarrow> int \<Rightarrow> 'a list" where
  "py_upto xs j = take (clamp_index (length xs) j) xs"

text \<open>\<open>xs[i]\<close>, which raises \<open>IndexError\<close> out of range.\<close>

definition py_idx :: "'a list \<Rightarrow> int \<Rightarrow> py_error + 'a" where
  "py_idx xs i =
     (let j = (if i < 0 then i + int (length xs) else i)
      in if 0 \<le> j \<and> j < int (length xs) then Inr (xs ! nat j) else Inl IndexError)"

text \<open>
  \<open>xs[-k]\<close> where the code has just tested that \<open>xs\<close> has at least \<open>k\<close> elements
  (\<open>1 \<le> k\<close>).
\<close>

definition nth_last :: "'a list \<Rightarrow> nat \<Rightarrow> 'a" where
  "nth_last xs k = xs ! (length xs - k)"

text \<open>\<open>max(xs)\<close> and \<open>min(xs)\<close>, which raise \<open>ValueError\<close> on the empty list.\<close>

fun py_max :: "real list \<Rightarrow> py_error + real" where
  "py_max [] = Inl ValueError"
| "py_max (x # xs) = Inr (fold max xs x)"

fun py_min :: "real list \<Rightarrow> py_error + real" where
  "py_min [] = Inl ValueError"
| "py_min (x # xs) = Inr (fold min xs x)"

text \<open>\<open>str(n)\<close> for a non-negative integer: its decimal digits.\<close>

function py_str_nat :: "nat \<Rightarrow> ustr" where
  "py_str_nat n = (if n < 10 then [48 + n] else py_str_nat (n div 10) @ [48 + n mod 10])"
  by pat_completeness auto
termination
  by (relation "measure (\<lambda>n. n)") auto

declare py_str_nat.simps [simp del]

section \<open>Indicator engine (screener\_v3.py, TechnicalIndicators)\<close>

text \<open>
  Prices are real numbers, volumes integers, a period a non-negative integer (the code
  passes 20, 50, 12, 26, 9 and 14).
\<close>

definition calculate_sma :: "real list \<Rightarrow> nat \<Rightarrow> py_error + real list" where
  "calculate_sma prices period =
     (if length prices < period then Inr []
      else map_err
             (\<lambda>i. py_div (sum_list (py_slice prices (i - int period + 1) (i + 1))) (real period))
             (py_range (int period - 1) (int (length prices))))"

text \<open>The loop of \<open>calculate_ema\<close>: each price appends one value computed from \<open>ema[-1]\<close>.\<close>

fun ema_loop :: "real \<Rightarrow> real list \<Rightarrow> real list \<Rightarrow> real list" where
  "ema_loop multiplier ema [] = ema"
| "ema_loop multiplier ema (price # rest) =
     ema_loop multiplier (ema @ [(price - last ema) * multiplier + last ema]) rest"

definition calculate_ema :: "real list \<Rightarrow> nat \<Rightarrow> py_error + real list" where
  "calculate_ema prices period =
     (if length prices < period then Inr []
      else bind_err (py_div 2 (real period + 1)) (\<lambda>multiplier.
           bind_err (py_div (sum_list (py_upto prices (int period))) (real period)) (\<lambda>seed.
           Inr (ema_loop multiplier [seed] (py_from prices (int period))))))"

definition calculate_macd :: "real list \<Rightarrow> py_error + (real list \<times> real list \<times> real list)" where
  "calculate_macd prices =
     (if length prices < 26 then Inr ([], [], [])
      else bind_err (calculate_ema prices 12) (\<lambda>ema12.
           bind_err (calculate_ema prices 26) (\<lambda>ema26.
           (let diff = int (length ema12) - int (length ema26);
                ema12' = py_from ema12 diff;
                macd_line = map (\<lambda>(e12, e26). e12 - e26) (zip ema12' ema26)
            in if 9 \<le> length macd_line then
                 bind_err (calculate_ema macd_line 9) (\<lambda>signal_line.
                   (let macd_line' = py_from macd_line (- int (length signal_line));
                        histogram = map (\<lambda>(m, s). m - s) (zip macd_line' signal_line)
                    in Inr (macd_line', signal_line, histogram)))
               else Inr (macd_line, [], [])))))"

text \<open>
  \<open>calculate_rsi\<close>. For the window that ends at \<open>i\<close> the inner loop runs \<open>j\<close> over
  \<open>range(i - period + 1, i + 1)\<close>; as \<open>period \<le> i < len(prices)\<close>, both \<open>j\<close> and \<open>j - 1\<close>
  are indices of \<open>prices\<close>. \<open>rsi_changes\<close> is the list of the \<open>change\<close> values of the
  window, \<open>rsi_gains\<close> and \<open>rsi_losses\<close> the two lists built from them.
\<close>

definition rsi_changes :: "real list \<Rightarrow> nat \<Rightarrow> int \<Rightarrow> real list" where
  "rsi_changes prices period i =
     map (\<lambda>j. prices ! nat j - prices ! nat (j - 1)) (py_range (i - int period + 1) (i + 1))"

definition rsi_gains :: "real list \<Rightarrow> real list" where
  "rsi_gains changes = map (\<lambda>change. if change > 0 then change else 0) changes"

definition rsi_losses :: "real list \<Rightarrow> real list" where
  "rsi_losses changes = map (\<lambda>change. if change > 0 then 0 else \<bar>change\<bar>) changes"

definition rsi_value :: "real list \<Rightarrow> nat \<Rightarrow> py_error + real" where
  "rsi_value changes period =
     bind_err (py_div (sum_list (rsi_gains changes)) (real period)) (\<lambda>avg_gain.
     bind_err (py_div (sum_list (rsi_losses changes)) (real period)) (\<lambda>avg_loss.
       if avg_loss = 0 then Inr 100
       else bind_err (py_div avg_gain avg_loss) (\<lambda>rs.
            bind_err (py_div 100 (1 + rs)) (\<lambda>q. Inr (100 - q)))))"


definition calculate_rsi :: "real list \<Rightarrow> nat \<Rightarrow> py_error + real list" where
  "calculate_rsi prices period =
     (if length prices < period + 1 then Inr []
      else map_err (\<lambda>i. rsi_value (rsi_changes prices period i) period)
             (py_range (int period) (int (length prices))))"

text \<open>
  \<open>calculate_obv\<close>: the loop over \<open>range(1, len(prices))\<close> appends to \<open>obv\<close>, which
  starts as \<open>[0]\<close>.
\<close>

fun obv_loop :: "real list \<Rightarrow> int list \<Rightarrow> int list \<Rightarrow> nat list \<Rightarrow> int list" where
  "obv_loop prices volumes obv [] = obv"
| "obv_loop prices volumes obv (i # rest) =
     obv_loop prices volumes
       (obv @ [if prices ! i > prices ! (i - 1) then last obv + volumes ! i
               else if prices ! i < prices ! (i - 1) then last obv - volumes ! i
               else last obv])
       rest"

definition calculate_obv :: "real list \<Rightarrow> int list \<Rightarrow> int list" where
  "calculate_obv prices volumes =
     (if length prices \<noteq> length volumes \<or> length prices < 2 then []
      else obv_loop prices volumes [0] [1..<length prices])"


section \<open>Outcome tracker (data\_store.py, PerformanceTracker)\<close>













section \<open>Signal scorer (screener\_v3.py, StockScreenerV3)\<close>

text \<open>The entries of \<open>self.config\<close> that \<open>analyze_stock\<close> reads.\<close>

record scorer_weights =
  ma_golden_cross :: int
  macd_golden_cross :: int
  rsi_reversal :: int
  volume_surge :: int
  price_breakout_52w :: int
  price_breakout_20d :: int
  trend_continuation :: int
  obv_confirm :: int

record config =
  min_price :: real
  max_price :: real
  min_avg_volume :: real
  min_score :: int
  volume_surge_ratio :: real
  trend_confirm_days :: nat
  ma_short :: nat
  ma_long :: nat
  rsi_oversold :: real
  weights :: scorer_weights

definition default_config :: config where
  "default_config =
     \<lparr>min_price = 5, max_price = 1000, min_avg_volume = 1000000, min_score = 40,
      volume_surge_ratio = 18 / 10, trend_confirm_days = 3, ma_short = 20, ma_long = 50,
      rsi_oversold = 30,
      weights = \<lparr>ma_golden_cross = 30, macd_golden_cross = 25, rsi_reversal = 20,
                 volume_surge = 15, price_breakout_52w = 20, price_breakout_20d = 10,
                 trend_continuation = 15, obv_confirm = 10\<rparr>\<rparr>"

text \<open>
  What \<open>get_stock_data\<close> returns for a symbol: of \<open>meta\<close> the three keys that are read
  (each may be absent), of the quote the three series, whose entries may be null.
\<close>

record stock_data =
  regularMarketPrice :: "real option"
  shortName :: "ustr option"
  longName :: "ustr option"
  quote_close :: "real option list"
  quote_volume :: "int option list"
  quote_high :: "real option list"

text \<open>The result of \<open>check_trend_strength\<close>: the description and the extra score.\<close>

datatype trend = InsufficientData | StrongUp | SteadyUp | MildUp | Declining | Choppy

definition trend_text :: "trend \<Rightarrow> ustr" where
  "trend_text t =
     (case t of
        InsufficientData \<Rightarrow> [0x6570, 0x636E, 0x4E0D, 0x8DB3]
      | StrongUp \<Rightarrow> [0x5F3A, 0x52BF, 0x4E0A, 0x6DA8]
      | SteadyUp \<Rightarrow> [0x7A33, 0x6B65, 0x4E0A, 0x6DA8]
      | MildUp \<Rightarrow> [0x6E29, 0x548C, 0x4E0A, 0x6DA8]
      | Declining \<Rightarrow> [0x6301, 0x7EED, 0x4E0B, 0x8DCC]
      | Choppy \<Rightarrow> [0x9707, 0x8361])"

definition check_trend_strength :: "real list \<Rightarrow> nat \<Rightarrow> trend \<times> int" where
  "check_trend_strength closes days =
     (if length closes < days + 1 then (InsufficientData, 0)
      else
        (let recent = py_from closes (- (int days + 1));
             up_days = int (length (filter (\<lambda>i. recent ! i > recent ! (i - 1))
                                      [1..<length recent]));
             total_change = (if hd recent > 0
                             then (last recent - hd recent) / hd recent * 100 else 0)
         in if up_days \<ge> int days - 1 \<and> total_change > 3 then (StrongUp, 15)
            else if up_days \<ge> int days - 1 \<and> total_change > 0 then (SteadyUp, 10)
            else if up_days \<ge> int days div 2 + 1 then (MildUp, 5)
            else if up_days \<le> 1 then (Declining, -10)
            else (Choppy, 0)))"

text \<open>
  A tag is one of the f-strings that \<open>analyze_stock\<close> appends to \<open>signals\<close>, with the
  values it interpolates. \<open>tag_text\<close> is the string itself. A float is rendered by
  Python's own fixed-point formatting, which is not code of this repository:
  \<open>fmt d x\<close> stands for \<open>f"{x:.df}"\<close> and is a parameter.
\<close>

datatype tag =
    MAGoldenCross nat nat
  | MABullish
  | MACDGoldenCross
  | MACDAccelerating
  | RSIRebound real
  | RSIBreak50 real
  | VolumeSurge real
  | Breakout52w real
  | Near52w real
  | Breakout20d
  | OBVRising
  | TrendTag trend

definition tag_text :: "(nat \<Rightarrow> real \<Rightarrow> ustr) \<Rightarrow> tag \<Rightarrow> ustr" where
  "tag_text fmt t =
     (case t of
        MAGoldenCross s l \<Rightarrow>
          [0x1F525, 0x20, 0x4D, 0x41] @ py_str_nat s @ [0x2F] @ py_str_nat l
            @ [0x91D1, 0x53C9, 0x786E, 0x8BA4]
      | MABullish \<Rightarrow> [0x1F4C8, 0x20, 0x5747, 0x7EBF, 0x591A, 0x5934, 0x6392, 0x5217]
      | MACDGoldenCross \<Rightarrow>
          [0x1F525, 0x20, 0x4D, 0x41, 0x43, 0x44, 0x91D1, 0x53C9, 0x786E, 0x8BA4]
      | MACDAccelerating \<Rightarrow>
          [0x1F4CA, 0x20, 0x4D, 0x41, 0x43, 0x44, 0x591A, 0x5934, 0x52A0, 0x901F]
      | RSIRebound r \<Rightarrow>
          [0x1F525, 0x20, 0x52, 0x53, 0x49, 0x8D85, 0x5356, 0x53CD, 0x5F39, 0x20, 0x28]
            @ fmt 0 r @ [0x29]
      | RSIBreak50 r \<Rightarrow>
          [0x1F4C8, 0x20, 0x52, 0x53, 0x49, 0x7A81, 0x7834, 0x35, 0x30, 0x5E76, 0x4E0A,
           0x5347, 0x20, 0x28] @ fmt 0 r @ [0x29]
      | VolumeSurge r \<Rightarrow>
          [0x1F525, 0x20, 0x6210, 0x4EA4, 0x91CF, 0x653E, 0x5927, 0x20] @ fmt 1 r @ [0x500D]
      | Breakout52w r \<Rightarrow>
          [0x1F525, 0x20, 0x7A81, 0x7834, 0x35, 0x32, 0x5468, 0x65B0, 0x9AD8, 0x20, 0x28]
            @ fmt 1 (r * 100) @ [0x25, 0x29]
      | Near52w r \<Rightarrow>
          [0x1F4C8, 0x20, 0x63A5, 0x8FD1, 0x35, 0x32, 0x5468, 0x65B0, 0x9AD8, 0x20, 0x28]
            @ fmt 1 (r * 100) @ [0x25, 0x29]
      | Breakout20d \<Rightarrow> [0x1F4C8, 0x20, 0x7A81, 0x7834, 0x32, 0x30, 0x65E5, 0x9AD8, 0x70B9]
      | OBVRising \<Rightarrow> [0x1F4CA, 0x20, 0x4F, 0x42, 0x56, 0x6301, 0x7EED, 0x4E0A, 0x5347]
      | TrendTag d \<Rightarrow> [0x1F4C8, 0x20] @ trend_text d)"

text \<open>
  \<open>check_signal_quality\<close>. The three strings of \<open>strong_signals\<close> are searched in each
  tag (\<open>strong_text\<close> is \<open>any(ss in s for ss in strong_signals)\<close>); the grade is the
  string the function returns, here a constructor.
\<close>

datatype grade = GradeA | GradeB | GradeC | GradeD

definition strong_signals :: "ustr list" where
  "strong_signals =
     [[0x91D1, 0x53C9], [0x35, 0x32, 0x5468, 0x65B0, 0x9AD8],
      [0x6210, 0x4EA4, 0x91CF, 0x653E, 0x5927]]"

definition strong_text :: "ustr \<Rightarrow> bool" where
  "strong_text s = list_ex (\<lambda>ss. py_in ss s) strong_signals"

definition strong_count :: "ustr list \<Rightarrow> int" where
  "strong_count signals = int (length (filter strong_text signals))"

definition check_signal_quality :: "ustr list \<Rightarrow> int \<Rightarrow> grade" where
  "check_signal_quality signals score =
     (if strong_count signals \<ge> 2 \<and> score \<ge> 70 then GradeA
      else if strong_count signals \<ge> 1 \<and> score \<ge> 50 then GradeB
      else if score \<ge> 40 then GradeC
      else GradeD)"

text \<open>
  The tags that \<open>check_signal_quality\<close> counts as strong, for the statements about the
  grades: the two golden crosses, the volume surge, and both 52-week tags.
\<close>

definition is_strong_tag :: "tag \<Rightarrow> bool" where
  "is_strong_tag t =
     (case t of
        MAGoldenCross s l \<Rightarrow> True
      | MACDGoldenCross \<Rightarrow> True
      | VolumeSurge r \<Rightarrow> True
      | Breakout52w r \<Rightarrow> True
      | Near52w r \<Rightarrow> True
      | _ \<Rightarrow> False)"

text \<open>
  The scoring rules of \<open>analyze_stock\<close>, in the order of the source. Each returns the tags
  it appends to \<open>signals\<close> and the amount it adds to \<open>score\<close>.
\<close>

type_synonym hit = "tag list \<times> int"

text \<open>Rule 1: moving-average golden cross, or bullish alignment.\<close>

definition ma_rule :: "config \<Rightarrow> real list \<Rightarrow> py_error + hit" where
  "ma_rule cfg closes =
     bind_err (calculate_sma closes (ma_short cfg)) (\<lambda>sma_short.
     bind_err (calculate_sma closes (ma_long cfg)) (\<lambda>sma_long.
       if sma_short \<noteq> [] \<and> sma_long \<noteq> [] \<and> 3 \<le> length sma_short \<and> 3 \<le> length sma_long
       then
         (let offset = int (length sma_short) - int (length sma_long);
              ma_short_aligned = (if offset > 0 then py_from sma_short offset else sma_short);
              ma_long_aligned = (if offset < 0
                                 then py_from sma_long (- int (length ma_short_aligned))
                                 else sma_long)
          in if 3 \<le> length ma_short_aligned \<and> 3 \<le> length ma_long_aligned then
               (if nth_last ma_short_aligned 1 > nth_last ma_long_aligned 1
                   \<and> nth_last ma_short_aligned 2 \<le> nth_last ma_long_aligned 2
                then
                  (if nth_last closes 1 > nth_last closes 2
                   then Inr ([MAGoldenCross (ma_short cfg) (ma_long cfg)],
                             ma_golden_cross (weights cfg))
                   else Inr ([], 0))
                else if nth_last ma_short_aligned 1 > nth_last ma_long_aligned 1
                        \<and> nth_last ma_short_aligned 1 > nth_last ma_short_aligned 2
                        \<and> nth_last ma_short_aligned 2 > nth_last ma_short_aligned 3
                then Inr ([MABullish], trend_continuation (weights cfg))
                else Inr ([], 0))
             else Inr ([], 0))
       else Inr ([], 0)))"

text \<open>
  Rule 2: MACD. The guard tests the length of \<open>macd_line\<close> only, so the reads of
  \<open>signal_line[-2]\<close> are checked reads. The \<open>elif\<close> is \<open>macd_accelerating\<close>.
\<close>

definition macd_accelerating :: "config \<Rightarrow> real list \<Rightarrow> real list \<Rightarrow> hit" where
  "macd_accelerating cfg macd_line histogram =
     (if nth_last macd_line 1 > 0 \<and> histogram \<noteq> [] \<and> 2 \<le> length histogram
         \<and> nth_last histogram 1 > nth_last histogram 2 \<and> nth_last histogram 2 > 0
      then ([MACDAccelerating], macd_golden_cross (weights cfg) div 2)
      else ([], 0))"

definition macd_rule :: "config \<Rightarrow> real list \<Rightarrow> py_error + hit" where
  "macd_rule cfg closes =
     bind_err (calculate_macd closes) (\<lambda>(macd_line, signal_line, histogram).
       if macd_line \<noteq> [] \<and> signal_line \<noteq> [] \<and> 3 \<le> length macd_line then
         (if nth_last macd_line 1 > nth_last signal_line 1 then
            bind_err (py_idx signal_line (-2)) (\<lambda>signal_prev.
              if nth_last macd_line 2 \<le> signal_prev
                 \<and> nth_last macd_line 1 > nth_last macd_line 2
              then Inr ([MACDGoldenCross], macd_golden_cross (weights cfg))
              else Inr (macd_accelerating cfg macd_line histogram))
          else Inr (macd_accelerating cfg macd_line histogram))
       else Inr ([], 0))"

text \<open>Rule 3: RSI, with the default period 14.\<close>

definition rsi_rule :: "config \<Rightarrow> real list \<Rightarrow> py_error + hit" where
  "rsi_rule cfg closes =
     bind_err (calculate_rsi closes 14) (\<lambda>rsi.
       if rsi \<noteq> [] \<and> 3 \<le> length rsi then
         (let current_rsi = nth_last rsi 1 in
          bind_err (py_min (py_slice rsi (-5) (-1))) (\<lambda>recent_low.
            if recent_low < rsi_oversold cfg \<and> current_rsi > rsi_oversold cfg
               \<and> current_rsi > nth_last rsi 2
            then Inr ([RSIRebound current_rsi], rsi_reversal (weights cfg))
            else if nth_last rsi 2 < 50 \<and> current_rsi > 50
                    \<and> current_rsi > nth_last rsi 2 \<and> nth_last rsi 2 > nth_last rsi 3
            then Inr ([RSIBreak50 current_rsi], rsi_reversal (weights cfg) div 2)
            else Inr ([], 0)))
       else Inr ([], 0))"

text \<open>Rule 4: volume surge. The ratio is 0 when the average volume is not positive.\<close>

definition volume_ratio :: "int \<Rightarrow> real \<Rightarrow> real" where
  "volume_ratio current_volume avg_vol =
     (if avg_vol > 0 then real_of_int current_volume / avg_vol else 0)"

definition volume_rule :: "config \<Rightarrow> int list \<Rightarrow> real \<Rightarrow> hit" where
  "volume_rule cfg volumes avg_vol =
     (if volumes \<noteq> [] \<and> 2 \<le> length volumes then
        (let current_volume = nth_last volumes 1;
             ratio = volume_ratio current_volume avg_vol
         in if ratio \<ge> volume_surge_ratio cfg
            then ([VolumeSurge ratio], volume_surge (weights cfg))
            else ([], 0))
      else ([], 0))"

text \<open>Rule 5: price near the 52-week high and the 20-day high.\<close>

definition breakout_rule :: "config \<Rightarrow> real list \<Rightarrow> real \<Rightarrow> py_error + hit" where
  "breakout_rule cfg highs price =
     (if highs \<noteq> [] \<and> 20 \<le> length highs then
        bind_err (if 250 \<le> length highs then py_max (py_from highs (-250)) else py_max highs)
          (\<lambda>high_52w.
        (let ratio_52w = (if high_52w > 0 then price / high_52w else 0);
             h52 = (if ratio_52w \<ge> 98 / 100
                    then ([Breakout52w ratio_52w], price_breakout_52w (weights cfg))
                    else if ratio_52w \<ge> 92 / 100
                    then ([Near52w ratio_52w], price_breakout_52w (weights cfg) div 2)
                    else ([], 0))
         in bind_err (py_max (py_from highs (-20))) (\<lambda>high_20d.
              if price \<ge> high_20d * (99 / 100)
              then Inr (fst h52 @ [Breakout20d], snd h52 + price_breakout_20d (weights cfg))
              else Inr h52)))
      else Inr ([], 0))"

text \<open>Rule 6: OBV above 1.05 times its 10-point mean and rising over three points.\<close>

definition obv_rule :: "config \<Rightarrow> real list \<Rightarrow> int list \<Rightarrow> hit" where
  "obv_rule cfg closes volumes =
     (let obv = calculate_obv closes volumes in
      if obv \<noteq> [] \<and> 10 \<le> length obv then
        (let obv_sma = real_of_int (sum_list (py_from obv (-10))) / 10 in
         if real_of_int (nth_last obv 1) > obv_sma * (105 / 100)
            \<and> nth_last obv 1 > nth_last obv 2 \<and> nth_last obv 2 > nth_last obv 3
         then ([OBVRising], obv_confirm (weights cfg))
         else ([], 0))
      else ([], 0))"

text \<open>
  The accumulation of \<open>signals\<close> and \<open>score\<close> over the six rules and the trend check
  (rule 7), which appends its tag only for a positive extra score and adds the extra
  score in every case. The result is \<open>signals\<close>, \<open>score\<close> and \<open>trend_desc\<close>.
\<close>

definition score_rules ::
  "config \<Rightarrow> real list \<Rightarrow> int list \<Rightarrow> real list \<Rightarrow> real \<Rightarrow> real
     \<Rightarrow> py_error + (tag list \<times> int \<times> trend)" where
  "score_rules cfg closes volumes highs price avg_vol =
     bind_err (ma_rule cfg closes) (\<lambda>h1.
     bind_err (macd_rule cfg closes) (\<lambda>h2.
     bind_err (rsi_rule cfg closes) (\<lambda>h3.
     (let h4 = volume_rule cfg volumes avg_vol in
     bind_err (breakout_rule cfg highs price) (\<lambda>h5.
     (let h6 = obv_rule cfg closes volumes;
          tr = check_trend_strength closes (trend_confirm_days cfg);
          h7 = (if snd tr > 0 then [TrendTag (fst tr)] else [])
      in Inr (fst h1 @ fst h2 @ fst h3 @ fst h4 @ fst h5 @ fst h6 @ h7,
              snd h1 + snd h2 + snd h3 + snd h4 + snd h5 + snd h6 + snd tr,
              fst tr)))))))"

text \<open>The dataclass \<open>StockSignal\<close>.\<close>

record stock_signal =
  symbol :: ustr
  name :: ustr
  current_price :: real
  change_percent :: real
  volume :: int
  avg_volume :: real
  signals :: "ustr list"
  score :: int
  trend_strength :: ustr
  signal_quality :: grade
  timestamp :: datetime

text \<open>
  The input series of a response, nulls dropped, and the two quantities of the filter
  gate. \<open>current_price_of\<close> is read only after the test that there are 60 closes.
\<close>

definition closes_of :: "stock_data \<Rightarrow> real list" where
  "closes_of d = List.map_filter (\<lambda>c. c) (quote_close d)"

definition volumes_of :: "stock_data \<Rightarrow> int list" where
  "volumes_of d = List.map_filter (\<lambda>v. v) (quote_volume d)"

definition highs_of :: "stock_data \<Rightarrow> real list" where
  "highs_of d = List.map_filter (\<lambda>h. h) (quote_high d)"

definition current_price_of :: "stock_data \<Rightarrow> real" where
  "current_price_of d =
     (case regularMarketPrice d of Some p \<Rightarrow> p | None \<Rightarrow> nth_last (closes_of d) 1)"

definition avg_volume_of :: "stock_data \<Rightarrow> py_error + real" where
  "avg_volume_of d =
     (let volumes = volumes_of d in
      if 20 \<le> length volumes then Inr (real_of_int (sum_list (py_from volumes (-20))) / 20)
      else py_div (real_of_int (sum_list volumes)) (real (length volumes)))"

text \<open>
  The body of the \<open>try\<close> block of \<open>analyze_stock\<close>. \<open>now\<close> is the value of
  \<open>datetime.now()\<close> at the moment the signal is built.
\<close>

definition analyze_body ::
  "config \<Rightarrow> (nat \<Rightarrow> real \<Rightarrow> ustr) \<Rightarrow> ustr \<Rightarrow> stock_data \<Rightarrow> datetime
     \<Rightarrow> py_error + stock_signal option" where
  "analyze_body cfg fmt ticker d now =
     (let closes = closes_of d; volumes = volumes_of d; highs = highs_of d in
      if length closes < 60 then Inr None
      else
        (let price = current_price_of d;
             nm = (case shortName d of Some n \<Rightarrow> n
                   | None \<Rightarrow> (case longName d of Some n \<Rightarrow> n | None \<Rightarrow> ticker))
         in if price < min_price cfg \<or> price > max_price cfg then Inr None
            else bind_err (avg_volume_of d) (\<lambda>avg_vol.
              if avg_vol < min_avg_volume cfg then Inr None
              else bind_err (score_rules cfg closes volumes highs price avg_vol)
                (\<lambda>(tags, sc, trend_desc).
                  if tags \<noteq> [] \<and> sc \<ge> min_score cfg then
                    (let prev_close = (if 2 \<le> length closes then nth_last closes 2 else price);
                         change = (if prev_close > 0
                                   then (price - prev_close) / prev_close * 100 else 0);
                         sigs = map (tag_text fmt) tags
                     in Inr (Some
                          \<lparr>symbol = ticker,
                           name = (if nm \<noteq> [] then py_upto nm 30 else ticker),
                           current_price = price,
                           change_percent = change,
                           volume = (if volumes \<noteq> [] then nth_last volumes 1 else 0),
                           avg_volume = avg_vol,
                           signals = sigs,
                           score = sc,
                           trend_strength = trend_text trend_desc,
                           signal_quality = check_signal_quality sigs sc,
                           timestamp = now\<rparr>))
                  else Inr None))))"

text \<open>
  \<open>analyze_stock\<close>: no data gives \<open>None\<close>, and \<open>except Exception\<close> turns every exception
  of the body into \<open>None\<close>. The first argument of the Python method, the provider's
  answer to \<open>get_stock_data(symbol)\<close>, is the argument \<open>data\<close>.
\<close>

definition analyze_stock ::
  "config \<Rightarrow> (nat \<Rightarrow> real \<Rightarrow> ustr) \<Rightarrow> ustr \<Rightarrow> stock_data option \<Rightarrow> datetime
     \<Rightarrow> stock_signal option" where
  "analyze_stock cfg fmt ticker data now =
     (case data of
        None \<Rightarrow> None
      | Some d \<Rightarrow> (case analyze_body cfg fmt ticker d now of Inl e \<Rightarrow> None | Inr r \<Rightarrow> r))"


section \<open>Screening orchestrator (screener\_v3.py, screen\_stocks)\<close>

text \<open>The dataclass \<open>RunTimeStats\<close> and the two counters of the screener.\<close>

record run_time_stats =
  start_time :: datetime
  end_time :: "datetime option"
  total_stocks :: int
  processed_stocks :: int
  successful_stocks :: int
  failed_stocks :: int
  signals_found :: int
  high_score_count :: int
  avg_time_per_stock :: real
  total_runtime_seconds :: real

record counters =
  processed_count :: int
  failed_count :: int

text \<open>
  What a run takes from outside: for the task with index \<open>i\<close> (the \<open>i\<close>-th symbol of the
  list) the provider's answer \<open>env_fetch i\<close> and the clock value \<open>env_clock i\<close> at which
  its signal is stamped; the order \<open>env_order\<close> in which \<open>as_completed\<close> yields the tasks;
  the wall-clock readings at the start and the end of the run and the elapsed seconds.
\<close>

record run_env =
  env_fetch :: "nat \<Rightarrow> ustr \<Rightarrow> stock_data option"
  env_clock :: "nat \<Rightarrow> datetime"
  env_order :: "nat list"
  env_started :: datetime
  env_ended :: datetime
  env_elapsed :: real

text \<open>
  \<open>_analyze_with_tracking\<close>: the analysis, then the two counters under the lock. The lock
  makes each update atomic, so a run is a sequence of such updates in some order.
\<close>

definition analyze_with_tracking ::
  "config \<Rightarrow> (nat \<Rightarrow> real \<Rightarrow> ustr) \<Rightarrow> ustr \<Rightarrow> stock_data option \<Rightarrow> datetime \<Rightarrow> counters
     \<Rightarrow> stock_signal option \<times> counters" where
  "analyze_with_tracking cfg fmt ticker data now c =
     (let result = analyze_stock cfg fmt ticker data now
      in (result,
          c\<lparr>processed_count := processed_count c + 1,
            failed_count := (if result = None then failed_count c + 1 else failed_count c)\<rparr>))"

text \<open>One task of the run: its analysis, and \<open>results.append(result)\<close> when there is one.\<close>

definition run_task ::
  "config \<Rightarrow> (nat \<Rightarrow> real \<Rightarrow> ustr) \<Rightarrow> run_env \<Rightarrow> ustr list \<Rightarrow> nat
     \<Rightarrow> stock_signal list \<times> counters \<Rightarrow> stock_signal list \<times> counters" where
  "run_task cfg fmt env symbols i st =
     (let r = analyze_with_tracking cfg fmt (symbols ! i) (env_fetch env i (symbols ! i))
                (env_clock env i) (snd st)
      in (case fst r of None \<Rightarrow> fst st | Some s \<Rightarrow> fst st @ [s], snd r))"

definition screen_stocks ::
  "config \<Rightarrow> (nat \<Rightarrow> real \<Rightarrow> ustr) \<Rightarrow> run_env \<Rightarrow> ustr list
     \<Rightarrow> stock_signal list \<times> run_time_stats" where
  "screen_stocks cfg fmt env symbols =
     (let finished = fold (run_task cfg fmt env symbols) (env_order env)
                   ([], \<lparr>processed_count = 0, failed_count = 0\<rparr>);
          results = fst finished; c = snd finished;
          stats = \<lparr>start_time = env_started env,
                   end_time = Some (env_ended env),
                   total_stocks = int (length symbols),
                   processed_stocks = processed_count c,
                   successful_stocks = processed_count c - failed_count c,
                   failed_stocks = failed_count c,
                   signals_found = int (length results),
                   high_score_count = int (length (filter (\<lambda>r. score r \<ge> 70) results)),
                   avg_time_per_stock =
                     (if symbols \<noteq> [] then env_elapsed env / real (length symbols) else 0),
                   total_runtime_seconds = env_elapsed env\<rparr>
      in (sort_key (\<lambda>r. - score r) results, stats))"

text \<open>The outcome of task \<open>i\<close> of a run, for the statements about the run.\<close>

definition task_result ::
  "config \<Rightarrow> (nat \<Rightarrow> real \<Rightarrow> ustr) \<Rightarrow> run_env \<Rightarrow> ustr list \<Rightarrow> nat \<Rightarrow> stock_signal option" where
  "task_result cfg fmt env symbols i =
     analyze_stock cfg fmt (symbols ! i) (env_fetch env i (symbols ! i)) (env_clock env i)"

section \<open>Concrete inputs for the scorer and the orchestrator\<close>

text \<open>
  \<open>flat_data\<close>: sixty sessions at a close and a high of 10 with a volume of two million.
  \<open>penny_data\<close>: the same series quoted at 2. \<open>short_data\<close>: three sessions.
  \<open>low_gate_config\<close>: the default configuration with \<open>min_score\<close> lowered to 20.
  \<open>fmt_blank\<close> stands in for the float formatting where a concrete one is needed.
\<close>

definition fmt_blank :: "nat \<Rightarrow> real \<Rightarrow> ustr" where
  "fmt_blank digits x = []"

definition flat_data :: stock_data where
  "flat_data =
     \<lparr>regularMarketPrice = None, shortName = None, longName = None,
      quote_close = replicate 60 (Some 10), quote_volume = replicate 60 (Some 2000000),
      quote_high = replicate 60 (Some 10)\<rparr>"

definition penny_data :: stock_data where
  "penny_data = flat_data\<lparr>regularMarketPrice := Some 2\<rparr>"

definition short_data :: stock_data where
  "short_data =
     \<lparr>regularMarketPrice = Some 10, shortName = None, longName = None,
      quote_close = [Some 10, None, Some 11, Some 12], quote_volume = [Some 2000000],
      quote_high = [Some 10]\<rparr>"

definition low_gate_config :: config where
  "low_gate_config = default_config\<lparr>min_score := 20\<rparr>"

text \<open>\<open>breakout_config\<close>: the default configuration with the 52-week weight raised to 60.\<close>

definition breakout_config :: config where
  "breakout_config =
     default_config\<lparr>weights := (weights default_config)\<lparr>price_breakout_52w := 60\<rparr>\<rparr>"

text \<open>
  A run over three symbols: the provider has nothing for the first, three sessions for the
  second and the flat series for the third; the third task completes first.
\<close>

definition three_symbols :: "ustr list" where
  "three_symbols = [asc ''AAA'', asc ''BBB'', asc ''CCC'']"

definition three_env :: run_env where
  "three_env =
     \<lparr>env_fetch = (\<lambda>i s. if i = 0 then None else if i = 1 then Some short_data
                           else Some flat_data),
      env_clock = (\<lambda>i. (100, i)),
      env_order = [2, 0, 1],
      env_started = (100, 0), env_ended = (100, 9), env_elapsed = 9\<rparr>"


section \<open>Python values: proofs\<close>

subsection \<open>Sequencing of fallible steps\<close>

text \<open>
  \<open>bind_err\<close> is evaluated left to right: the congruence rule keeps the simplifier out of
  the continuation until the first step has a value.
\<close>


lemma bind_err_Inr [simp]: "bind_err (Inr x) f = f x"
  by (simp add: bind_err_def)

lemma bind_err_Inl [simp]: "bind_err (Inl e) f = Inl e"
  by (simp add: bind_err_def)

lemma bind_err_weak_cong [cong]: "m = m' \<Longrightarrow> bind_err m f = bind_err m' f"
  by simp

lemma map_err_Inr:
  "(\<And>x. x \<in> set xs \<Longrightarrow> f x = Inr (g x)) \<Longrightarrow> map_err f xs = Inr (map g xs)"
  by (induction xs) simp_all

subsection \<open>Ranges\<close>

lemma set_py_range: "set (py_range a b) = {a..<b}"
proof -
  have "(\<lambda>k. a + int k) ` {0..<nat (b - a)} = {a..<b}"
  proof (intro equalityI subsetI)
    fix x assume "x \<in> (\<lambda>k. a + int k) ` {0..<nat (b - a)}"
    then show "x \<in> {a..<b}" by auto
  next
    fix x assume "x \<in> {a..<b}"
    then have "x = a + int (nat (x - a))" "nat (x - a) \<in> {0..<nat (b - a)}" by auto
    then show "x \<in> (\<lambda>k. a + int k) ` {0..<nat (b - a)}" by blast
  qed
  then show ?thesis by (simp add: py_range_def)
qed

lemma length_py_range: "length (py_range a b) = nat (b - a)"
  by (simp add: py_range_def)

lemma map_const_replicate: "map (\<lambda>_. c) xs = replicate (length xs) c"
  by (induction xs) simp_all


section \<open>Weight optimizer: proofs\<close>









subsection \<open>C4: re-running the optimizer on the same suggestions\<close>




subsection \<open>C5: bounded steps and the frame of the weight application\<close>




section \<open>Persistent store: proofs\<close>


subsection \<open>C2: update passes over the tracking table\<close>



















subsection \<open>C3: saving a batch and reading the date back\<close>











section \<open>Indicator engine and scorer: proofs\<close>

subsection \<open>A flat series has flat indicators\<close>

text \<open>
  On a series that repeats one price the moving averages repeat that price, the MACD
  lines are 0, the RSI is 100 throughout (no loss in any window) and the OBV stays 0.
\<close>

lemma sma_flat:
  assumes "1 \<le> p" "p \<le> n"
  shows "calculate_sma (replicate n c) p = Inr (replicate (Suc n - p) c)"
proof -
  have win: "py_div (sum_list (py_slice (replicate n c) (i - int p + 1) (i + 1))) (real p) = Inr c"
    if "i \<in> set (py_range (int p - 1) (int (length (replicate n c))))" for i
  proof -
    from that have i: "int p - 1 \<le> i" "i < int n" by (simp_all add: set_py_range)
    have a: "clamp_index n (i - int p + 1) = nat (i - int p + 1)"
      using i by (simp add: clamp_index_def)
    have b: "clamp_index n (i + 1) = nat (i + 1)"
      using i by (simp add: clamp_index_def)
    have d: "nat (i + 1) - nat (i - int p + 1) = p" using i by linarith
    have e: "p \<le> n - nat (i - int p + 1)" using i by linarith
    have "py_slice (replicate n c) (i - int p + 1) (i + 1) = replicate p c"
      using e by (simp add: py_slice_def a b d min_def)
    then show ?thesis using assms by (simp add: py_div_def sum_list_replicate)
  qed
  have "map_err (\<lambda>i. py_div (sum_list (py_slice (replicate n c) (i - int p + 1) (i + 1))) (real p))
          (py_range (int p - 1) (int (length (replicate n c))))
        = Inr (map (\<lambda>_. c) (py_range (int p - 1) (int (length (replicate n c)))))"
    by (rule map_err_Inr) (rule win)
  moreover have "nat (int n - (int p - 1)) = Suc n - p" using assms by linarith
  ultimately show ?thesis
    using assms by (simp add: calculate_sma_def map_const_replicate length_py_range)
qed

lemma ema_loop_flat:
  "ema \<noteq> [] \<Longrightarrow> last ema = c \<Longrightarrow> ema_loop m ema (replicate k c) = ema @ replicate k c"
proof (induction k arbitrary: ema)
  case 0
  then show ?case by simp
next
  case (Suc k)
  have "ema_loop m (ema @ [c]) (replicate k c) = (ema @ [c]) @ replicate k c"
    by (rule Suc.IH) simp_all
  then show ?case using Suc.prems by simp
qed

lemma ema_flat:
  assumes "1 \<le> p" "p \<le> n"
  shows "calculate_ema (replicate n c) p = Inr (replicate (Suc n - p) c)"
proof -
  have a: "py_upto (replicate n c) (int p) = replicate p c"
    using assms by (simp add: py_upto_def clamp_index_def min_def)
  have b: "py_from (replicate n c) (int p) = replicate (n - p) c"
    using assms by (simp add: py_from_def clamp_index_def)
  have "ema_loop (2 / (real p + 1)) [c] (replicate (n - p) c) = [c] @ replicate (n - p) c"
    by (rule ema_loop_flat) simp_all
  also have "\<dots> = replicate (Suc n - p) c"
    using assms by (simp add: Suc_diff_le)
  finally have l: "ema_loop (2 / (real p + 1)) [c] (replicate (n - p) c)
      = replicate (Suc n - p) c" .
  have nz: "real p + 1 \<noteq> 0" by linarith
  have seed: "sum_list (replicate p c) / real p = c"
    using assms by (simp add: sum_list_replicate)
  show ?thesis
    using assms nz by (simp add: calculate_ema_def a b py_div_def seed l del: replicate.simps)
qed

lemma macd_flat:
  assumes "34 \<le> n"
  shows "calculate_macd (replicate n c)
    = Inr (replicate (n - 33) 0, replicate (n - 33) 0, replicate (n - 33) 0)"
proof -
  have e12: "calculate_ema (replicate n c) 12 = Inr (replicate (n - 11) c)"
    using assms ema_flat [of 12 n c] by simp
  have e26: "calculate_ema (replicate n c) 26 = Inr (replicate (n - 25) c)"
    using assms ema_flat [of 26 n c] by simp
  have e9: "calculate_ema (replicate (n - 25) (0::real)) 9 = Inr (replicate (n - 33) 0)"
    using assms ema_flat [of 9 "n - 25" 0] by simp
  have d: "clamp_index (n - 11) (int (n - 11) - int (n - 25)) = 14"
    using assms by (simp add: clamp_index_def)
  have t: "clamp_index (n - 25) (- int (n - 33)) = 8"
    using assms by (simp add: clamp_index_def)
  have a: "n - 11 - 14 = n - 25" "n - 25 - 8 = n - 33" "9 \<le> n - 25" "\<not> n < 26"
    using assms by simp_all
  show ?thesis
    by (simp add: calculate_macd_def e12 e26 e9 py_from_def d t a Let_def)
qed

lemma rsi_flat:
  assumes "1 \<le> p" "p < n"
  shows "calculate_rsi (replicate n c) p = Inr (replicate (n - p) 100)"
proof -
  have win: "rsi_value (rsi_changes (replicate n c) p i) p = Inr 100"
    if "i \<in> set (py_range (int p) (int (length (replicate n c))))" for i
  proof -
    from that have i: "int p \<le> i" "i < int n" by (simp_all add: set_py_range)
    have "map (\<lambda>j. replicate n c ! nat j - replicate n c ! nat (j - 1))
             (py_range (i - int p + 1) (i + 1))
          = map (\<lambda>_. 0) (py_range (i - int p + 1) (i + 1))"
    proof (rule map_cong [OF refl])
      fix j assume "j \<in> set (py_range (i - int p + 1) (i + 1))"
      then have "i - int p + 1 \<le> j" "j < i + 1" by (simp_all add: set_py_range)
      with i have "nat j < n" "nat (j - 1) < n" by linarith+
      then show "replicate n c ! nat j - replicate n c ! nat (j - 1) = 0" by simp
    qed
    then have ch: "rsi_changes (replicate n c) p i = replicate p 0"
      by (simp add: rsi_changes_def map_const_replicate length_py_range)
    show ?thesis using assms
      by (simp add: ch rsi_value_def rsi_gains_def rsi_losses_def py_div_def sum_list_replicate)
  qed
  have "map_err (\<lambda>i. rsi_value (rsi_changes (replicate n c) p i) p)
          (py_range (int p) (int (length (replicate n c))))
        = Inr (map (\<lambda>_. 100) (py_range (int p) (int (length (replicate n c)))))"
    by (rule map_err_Inr) (rule win)
  moreover have "nat (int n - int p) = n - p" by linarith
  ultimately show ?thesis
    using assms by (simp add: calculate_rsi_def map_const_replicate length_py_range)
qed

lemma obv_loop_flat:
  "\<forall>i \<in> set idx. 1 \<le> i \<and> i < n \<Longrightarrow> obv \<noteq> [] \<Longrightarrow> last obv = 0 \<Longrightarrow>
   obv_loop (replicate n c) vs obv idx = obv @ replicate (length idx) 0"
proof (induction idx arbitrary: obv)
  case Nil
  then show ?case by simp
next
  case (Cons i idx)
  then have i: "i < n" "i - 1 < n" by auto
  have "obv_loop (replicate n c) vs (obv @ [0]) idx = (obv @ [0]) @ replicate (length idx) 0"
    using Cons.prems by (intro Cons.IH) simp_all
  then show ?case using i Cons.prems by (simp add: replicate_app_Cons_same)
qed

lemma obv_flat:
  assumes "2 \<le> n"
  shows "calculate_obv (replicate n c) (replicate n v) = replicate n 0"
proof -
  have "obv_loop (replicate n c) (replicate n v) [0] [1..<n] = [0] @ replicate (length [1..<n]) 0"
    by (rule obv_loop_flat) auto
  also have "\<dots> = replicate n 0"
    using assms by (cases n) simp_all
  finally show ?thesis using assms by (simp add: calculate_obv_def)
qed


subsection \<open>Which tags are strong\<close>

text \<open>
  \<open>needle in s\<close> holds exactly when \<open>s\<close> splits around \<open>needle\<close>. With a float formatting
  that writes ASCII characters only, a tag contains one of the three strong strings
  exactly when it is a golden cross, a volume surge or one of the two 52-week tags.
\<close>


lemma py_in_iff: "py_in needle xs \<longleftrightarrow> (\<exists>a b. xs = a @ needle @ b)"
proof (induction xs)
  case Nil
  then show ?case by auto
next
  case (Cons x xs)
  show ?case
  proof
    assume "py_in needle (x # xs)"
    then consider "take (length needle) (x # xs) = needle" | "py_in needle xs" by auto
    then show "\<exists>a b. x # xs = a @ needle @ b"
    proof cases
      case 1
      then have "x # xs = [] @ needle @ drop (length needle) (x # xs)"
        by (metis append_Nil append_take_drop_id)
      then show ?thesis by blast
    next
      case 2
      with Cons.IH obtain a b where "xs = a @ needle @ b" by blast
      then have "x # xs = (x # a) @ needle @ b" by simp
      then show ?thesis by blast
    qed
  next
    assume "\<exists>a b. x # xs = a @ needle @ b"
    then obtain a b where ab: "x # xs = a @ needle @ b" by blast
    show "py_in needle (x # xs)"
    proof (cases a)
      case Nil
      with ab have "take (length needle) (x # xs) = needle" by simp
      then show ?thesis by simp
    next
      case (Cons y a')
      with ab have "xs = a' @ needle @ b" by simp
      with Cons.IH have "py_in needle xs" by blast
      then show ?thesis by simp
    qed
  qed
qed

lemma py_in_middle: "py_in needle (a @ needle @ b)"
  using py_in_iff by blast

lemma py_in_set: "py_in needle xs \<Longrightarrow> set needle \<subseteq> set xs"
  by (auto simp: py_in_iff)

lemma not_py_in: "c \<in> set needle \<Longrightarrow> c \<notin> set xs \<Longrightarrow> \<not> py_in needle xs"
  using py_in_set by blast

lemma strong_text_iff:
  "strong_text s \<longleftrightarrow>
     py_in [0x91D1, 0x53C9] s \<or> py_in [0x35, 0x32, 0x5468, 0x65B0, 0x9AD8] s
     \<or> py_in [0x6210, 0x4EA4, 0x91CF, 0x653E, 0x5927] s"
  by (simp add: strong_text_def strong_signals_def)

lemma weak_text:
  assumes "0x91D1 \<notin> set s" "0x5468 \<notin> set s" "0x6210 \<notin> set s"
  shows "\<not> strong_text s"
proof -
  have "\<not> py_in [0x91D1, 0x53C9] s" using assms(1) by (intro not_py_in [of "0x91D1"]) simp_all
  moreover have "\<not> py_in [0x35, 0x32, 0x5468, 0x65B0, 0x9AD8] s"
    using assms(2) by (intro not_py_in [of "0x5468"]) simp_all
  moreover have "\<not> py_in [0x6210, 0x4EA4, 0x91CF, 0x653E, 0x5927] s"
    using assms(3) by (intro not_py_in [of "0x6210"]) simp_all
  ultimately show ?thesis by (simp add: strong_text_iff)
qed

lemma strong_tag_text:
  assumes ascii: "\<forall>d x. \<forall>c \<in> set (fmt d x). c < 128"
  shows "strong_text (tag_text fmt t) \<longleftrightarrow> is_strong_tag t"
proof -
  have f: "0x91D1 \<notin> set (fmt d x)" "0x5468 \<notin> set (fmt d x)" "0x6210 \<notin> set (fmt d x)" for d x
    using ascii by force+
  show ?thesis
  proof (cases t)
    case (MAGoldenCross s l)
    have "py_in [0x91D1, 0x53C9]
            (([0x1F525, 0x20, 0x4D, 0x41] @ py_str_nat s @ [0x2F] @ py_str_nat l)
              @ [0x91D1, 0x53C9] @ [0x786E, 0x8BA4])"
      by (rule py_in_middle)
    then show ?thesis by (simp add: MAGoldenCross tag_text_def is_strong_tag_def strong_text_iff)
  next
    case MABullish
    then show ?thesis by (simp add: tag_text_def is_strong_tag_def strong_text_iff)
  next
    case MACDGoldenCross
    then show ?thesis by (simp add: tag_text_def is_strong_tag_def strong_text_iff)
  next
    case MACDAccelerating
    then show ?thesis by (simp add: tag_text_def is_strong_tag_def strong_text_iff)
  next
    case (RSIRebound r)
    have "\<not> strong_text (tag_text fmt (RSIRebound r))"
      by (rule weak_text) (simp_all add: tag_text_def f)
    then show ?thesis by (simp add: RSIRebound is_strong_tag_def)
  next
    case (RSIBreak50 r)
    have "\<not> strong_text (tag_text fmt (RSIBreak50 r))"
      by (rule weak_text) (simp_all add: tag_text_def f)
    then show ?thesis by (simp add: RSIBreak50 is_strong_tag_def)
  next
    case (VolumeSurge r)
    have "py_in [0x6210, 0x4EA4, 0x91CF, 0x653E, 0x5927]
            ([0x1F525, 0x20] @ [0x6210, 0x4EA4, 0x91CF, 0x653E, 0x5927]
               @ ([0x20] @ fmt 1 r @ [0x500D]))"
      by (rule py_in_middle)
    then show ?thesis by (simp add: VolumeSurge tag_text_def is_strong_tag_def strong_text_iff)
  next
    case (Breakout52w r)
    have "py_in [0x35, 0x32, 0x5468, 0x65B0, 0x9AD8]
            ([0x1F525, 0x20, 0x7A81, 0x7834] @ [0x35, 0x32, 0x5468, 0x65B0, 0x9AD8]
               @ ([0x20, 0x28] @ fmt 1 (r * 100) @ [0x25, 0x29]))"
      by (rule py_in_middle)
    then show ?thesis by (simp add: Breakout52w tag_text_def is_strong_tag_def strong_text_iff)
  next
    case (Near52w r)
    have "py_in [0x35, 0x32, 0x5468, 0x65B0, 0x9AD8]
            ([0x1F4C8, 0x20, 0x63A5, 0x8FD1] @ [0x35, 0x32, 0x5468, 0x65B0, 0x9AD8]
               @ ([0x20, 0x28] @ fmt 1 (r * 100) @ [0x25, 0x29]))"
      by (rule py_in_middle)
    then show ?thesis by (simp add: Near52w tag_text_def is_strong_tag_def strong_text_iff)
  next
    case Breakout20d
    then show ?thesis by (simp add: tag_text_def is_strong_tag_def strong_text_iff)
  next
    case OBVRising
    then show ?thesis by (simp add: tag_text_def is_strong_tag_def strong_text_iff)
  next
    case (TrendTag d)
    then show ?thesis
      by (cases d) (simp_all add: tag_text_def trend_text_def is_strong_tag_def strong_text_iff)
  qed
qed

lemma strong_count_tags:
  assumes "\<forall>d x. \<forall>c \<in> set (fmt d x). c < 128"
  shows "strong_count (map (tag_text fmt) tags) = int (length (filter is_strong_tag tags))"
proof -
  have "filter strong_text (map (tag_text fmt) tags)
        = map (tag_text fmt) (filter is_strong_tag tags)"
    using strong_tag_text [OF assms]
    by (simp add: filter_map comp_def)
  then show ?thesis by (simp add: strong_count_def)
qed


subsection \<open>The scoring rules on the flat sixty-session series\<close>

text \<open>
  With the thresholds and periods of the default configuration, whatever the weights
  \<open>w\<close> and the entry score \<open>m\<close>, the flat series triggers the two breakout rules and the
  decline penalty of the trend check, and nothing else.
\<close>

lemma map_filter_replicate_Some:
  "List.map_filter (\<lambda>c. c) (replicate n (Some x)) = replicate n x"
  by (induction n) (simp_all add: map_filter_simps)

lemma flat_series:
  "closes_of flat_data = replicate 60 10"
  "volumes_of flat_data = replicate 60 2000000"
  "highs_of flat_data = replicate 60 10"
  by (simp_all add: closes_of_def volumes_of_def highs_of_def flat_data_def
      map_filter_replicate_Some)

lemma penny_series:
  "closes_of penny_data = replicate 60 10"
  by (simp add: closes_of_def penny_data_def flat_data_def map_filter_replicate_Some)

lemma flat_ma_rule:
  "ma_rule (default_config\<lparr>min_score := m, weights := w\<rparr>) (replicate 60 10) = Inr ([], 0)"
  by (simp add: ma_rule_def default_config_def sma_flat Let_def py_from_def
      clamp_index_def nth_last_def)

lemma flat_macd_rule:
  "macd_rule (default_config\<lparr>min_score := m, weights := w\<rparr>) (replicate 60 10) = Inr ([], 0)"
  by (simp add: macd_rule_def macd_accelerating_def default_config_def macd_flat nth_last_def)

lemma flat_rsi_rule:
  "rsi_rule (default_config\<lparr>min_score := m, weights := w\<rparr>) (replicate 60 10) = Inr ([], 0)"
proof -
  have "py_slice (replicate 46 (100::real)) (-5) (-1) = replicate 4 100"
    by (simp add: py_slice_def clamp_index_def)
  moreover have "py_min (replicate 4 (100::real)) = Inr 100"
    by (simp add: numeral_eq_Suc)
  ultimately show ?thesis
    by (simp add: rsi_rule_def default_config_def rsi_flat nth_last_def Let_def)
qed

lemma flat_volume_rule:
  "volume_rule (default_config\<lparr>min_score := m, weights := w\<rparr>) (replicate 60 2000000) 2000000
     = ([], 0)"
  by (simp add: volume_rule_def volume_ratio_def default_config_def nth_last_def Let_def)

lemma py_max_replicate: "0 < n \<Longrightarrow> py_max (replicate n c) = Inr c"
proof -
  have "fold max (replicate k c) c = c" for k by (induction k) simp_all
  then show "0 < n \<Longrightarrow> py_max (replicate n c) = Inr c" by (cases n) simp_all
qed

lemma flat_breakout_rule:
  "breakout_rule (default_config\<lparr>min_score := m, weights := w\<rparr>) (replicate 60 10) 10
     = Inr ([Breakout52w 1, Breakout20d], price_breakout_52w w + price_breakout_20d w)"
  by (simp add: breakout_rule_def default_config_def py_from_def clamp_index_def
      py_max_replicate Let_def)

lemma flat_obv_rule:
  "obv_rule (default_config\<lparr>min_score := m, weights := w\<rparr>) (replicate 60 10)
     (replicate 60 2000000) = ([], 0)"
  by (simp add: obv_rule_def obv_flat default_config_def py_from_def clamp_index_def
      nth_last_def Let_def)

lemma flat_trend: "check_trend_strength (replicate 60 10) 3 = (Declining, -10)"
proof -
  have r: "py_from (replicate 60 (10::real)) (- (int 3 + 1)) = replicate 4 10"
    by (simp add: py_from_def clamp_index_def)
  have u: "filter (\<lambda>i. replicate 4 (10::real) ! i > replicate 4 10 ! (i - 1))
             [1..<length (replicate 4 (10::real))] = []"
    by (auto simp: filter_empty_conv)
  show ?thesis
    unfolding check_trend_strength_def r Let_def u by simp
qed

lemma flat_score_rules:
  "score_rules (default_config\<lparr>min_score := m, weights := w\<rparr>) (replicate 60 10)
     (replicate 60 2000000) (replicate 60 10) 10 2000000
   = Inr ([Breakout52w 1, Breakout20d], price_breakout_52w w + price_breakout_20d w - 10,
          Declining)"
proof -
  have t: "trend_confirm_days (default_config\<lparr>min_score := m, weights := w\<rparr>) = 3"
    by (simp add: default_config_def)
  show ?thesis
    by (simp add: score_rules_def flat_ma_rule flat_macd_rule flat_rsi_rule flat_volume_rule
      flat_breakout_rule flat_obv_rule t flat_trend Let_def)
qed

lemma flat_gate:
  "current_price_of flat_data = 10"
  "avg_volume_of flat_data = Inr 2000000"
proof -
  have "regularMarketPrice flat_data = None" by (simp add: flat_data_def)
  then show "current_price_of flat_data = 10"
    by (simp add: current_price_of_def flat_series nth_last_def)
  show "avg_volume_of flat_data = Inr 2000000"
    by (simp add: avg_volume_of_def flat_series py_from_def clamp_index_def sum_list_replicate)
qed

lemma flat_strong_count:
  "strong_count (map (tag_text fmt_blank) [Breakout52w 1, Breakout20d]) = 1"
  by (simp add: tag_text_def fmt_blank_def strong_count_def strong_text_def
      strong_signals_def)

text \<open>What \<open>analyze_stock\<close> returns for the flat series.\<close>

lemma flat_analysis:
  "analyze_stock (default_config\<lparr>min_score := m, weights := w\<rparr>) fmt_blank ticker
     (Some flat_data) now
   = (if m \<le> price_breakout_52w w + price_breakout_20d w - 10 then
        Some \<lparr>symbol = ticker,
              name = (if ticker \<noteq> [] then py_upto ticker 30 else ticker),
              current_price = 10, change_percent = 0,
              volume = 2000000, avg_volume = 2000000,
              signals = map (tag_text fmt_blank) [Breakout52w 1, Breakout20d],
              score = price_breakout_52w w + price_breakout_20d w - 10,
              trend_strength = trend_text Declining,
              signal_quality =
                check_signal_quality (map (tag_text fmt_blank) [Breakout52w 1, Breakout20d])
                  (price_breakout_52w w + price_breakout_20d w - 10),
              timestamp = now\<rparr>
      else None)"
proof -
  have c: "min_price (default_config\<lparr>min_score := m, weights := w\<rparr>) = 5"
     "max_price (default_config\<lparr>min_score := m, weights := w\<rparr>) = 1000"
     "min_avg_volume (default_config\<lparr>min_score := m, weights := w\<rparr>) = 1000000"
    by (simp_all add: default_config_def)
  have s: "shortName flat_data = None" "longName flat_data = None"
    by (simp_all add: flat_data_def)
  show ?thesis
    by (simp add: analyze_stock_def analyze_body_def flat_series flat_gate
        flat_score_rules c s nth_last_def Let_def
        del: replicate.simps cong: let_weak_cong)
qed

lemma low_gate_config_eq:
  "low_gate_config = default_config\<lparr>min_score := 20, weights := weights default_config\<rparr>"
  by (simp add: low_gate_config_def)

lemma breakout_config_eq:
  "breakout_config = default_config\<lparr>min_score := 40,
     weights := (weights default_config)\<lparr>price_breakout_52w := 60\<rparr>\<rparr>"
  by (simp add: breakout_config_def default_config_def)

lemma low_gate_flat:
  "analyze_stock low_gate_config fmt_blank ticker (Some flat_data) now
   = Some \<lparr>symbol = ticker,
            name = (if ticker \<noteq> [] then py_upto ticker 30 else ticker),
            current_price = 10, change_percent = 0,
            volume = 2000000, avg_volume = 2000000,
            signals = map (tag_text fmt_blank) [Breakout52w 1, Breakout20d],
            score = 20, trend_strength = trend_text Declining,
            signal_quality = GradeD, timestamp = now\<rparr>"
proof -
  have w: "price_breakout_52w (weights default_config)
             + price_breakout_20d (weights default_config) - 10 = 20"
    by (simp add: default_config_def)
  have q: "check_signal_quality (map (tag_text fmt_blank) [Breakout52w 1, Breakout20d]) 20
             = GradeD"
    by (simp add: check_signal_quality_def flat_strong_count del: list.map)
  show ?thesis
    unfolding low_gate_config_eq flat_analysis w q by simp
qed

lemma breakout_flat:
  "analyze_stock breakout_config fmt_blank ticker (Some flat_data) now
   = Some \<lparr>symbol = ticker,
            name = (if ticker \<noteq> [] then py_upto ticker 30 else ticker),
            current_price = 10, change_percent = 0,
            volume = 2000000, avg_volume = 2000000,
            signals = map (tag_text fmt_blank) [Breakout52w 1, Breakout20d],
            score = 60, trend_strength = trend_text Declining,
            signal_quality = GradeB, timestamp = now\<rparr>"
proof -
  have w: "price_breakout_52w ((weights default_config)\<lparr>price_breakout_52w := 60\<rparr>)
             + price_breakout_20d ((weights default_config)\<lparr>price_breakout_52w := 60\<rparr>) - 10
           = 60"
    by (simp add: default_config_def)
  have q: "check_signal_quality (map (tag_text fmt_blank) [Breakout52w 1, Breakout20d]) 60
             = GradeB"
    by (simp add: check_signal_quality_def flat_strong_count del: list.map)
  show ?thesis
    unfolding breakout_config_eq flat_analysis w q by simp
qed

subsection \<open>C8: insufficient history\<close>

text \<open>
  C8: a series shorter than the period gives the empty list from \<open>calculate_sma\<close> and
  \<open>calculate_ema\<close>, fewer than 26 prices give three empty lists from \<open>calculate_macd\<close>,
  fewer than \<open>period + 1\<close> prices give the empty list from \<open>calculate_rsi\<close>, each as a
  value and not as an exception. With fewer than 60 closes, and also with no data at all,
  \<open>analyze_stock\<close> returns no signal; and whatever exception the body of \<open>analyze_stock\<close>
  raises, the caller gets no signal, never the exception.
\<close>

theorem insufficient_history_is_not_an_error:
  "(length prices < period \<longrightarrow>
      calculate_sma prices period = Inr [] \<and> calculate_ema prices period = Inr [])
   \<and> (length prices < 26 \<longrightarrow> calculate_macd prices = Inr ([], [], []))
   \<and> (length prices < period + 1 \<longrightarrow> calculate_rsi prices period = Inr [])
   \<and> (length (closes_of d) < 60 \<longrightarrow> analyze_stock cfg fmt ticker (Some d) now = None)
   \<and> analyze_stock cfg fmt ticker None now = None
   \<and> (analyze_body cfg fmt ticker d now = Inl e \<longrightarrow>
        analyze_stock cfg fmt ticker (Some d) now = None)"
  by (simp add: calculate_sma_def calculate_ema_def calculate_macd_def calculate_rsi_def
      analyze_stock_def analyze_body_def Let_def)

text \<open>
  Witness: three prices against a period of 14, and the three-session response against
  the scorer.
\<close>

theorem insufficient_history_is_not_an_error_witness:
  "length [10, 11, 12 :: real] < 14
   \<and> calculate_sma [10, 11, 12] 14 = Inr [] \<and> calculate_ema [10, 11, 12] 14 = Inr []
   \<and> calculate_macd [10, 11, 12] = Inr ([], [], [])
   \<and> calculate_rsi [10, 11, 12] 14 = Inr []
   \<and> length (closes_of short_data) < 60
   \<and> analyze_stock default_config fmt_blank (asc ''BBB'') (Some short_data) (100, 0) = None"
proof -
  have h: "length [10, 11, 12 :: real] < 14" "length [10, 11, 12 :: real] < 26"
    "length [10, 11, 12 :: real] < 14 + 1"
    by simp_all
  have l: "length (closes_of short_data) < 60"
    by (simp add: closes_of_def short_data_def map_filter_simps)
  from insufficient_history_is_not_an_error
    [of "[10, 11, 12]" 14 short_data default_config fmt_blank "asc ''BBB''" "(100, 0)"] h l
  show ?thesis by simp
qed

subsection \<open>C9: RSI bounds and the guarded ratio\<close>








subsection \<open>C7: the filter gate\<close>

text \<open>
  C7: if the current price is below \<open>min_price\<close> or above \<open>max_price\<close>, or the average
  volume (of the last 20 sessions, or of all when there are fewer) is below
  \<open>min_avg_volume\<close>, \<open>analyze_stock\<close> returns no signal, whatever the series, the weights
  and the score the rules would have reached.
\<close>

theorem filter_gate_precedes_scoring:
  assumes "current_price_of d < min_price cfg \<or> current_price_of d > max_price cfg
           \<or> (\<exists>a. avg_volume_of d = Inr a \<and> a < min_avg_volume cfg)"
  shows "analyze_stock cfg fmt ticker (Some d) now = None"
proof (cases "length (closes_of d) < 60")
  case True
  then show ?thesis by (simp add: analyze_stock_def analyze_body_def Let_def)
next
  case long: False
  show ?thesis
  proof (cases "current_price_of d < min_price cfg \<or> current_price_of d > max_price cfg")
    case True
    with long show ?thesis by (simp add: analyze_stock_def analyze_body_def Let_def)
  next
    case False
    with assms obtain a where a: "avg_volume_of d = Inr a" "a < min_avg_volume cfg" by blast
    with long False show ?thesis by (simp add: analyze_stock_def analyze_body_def Let_def)
  qed
qed

text \<open>
  Witness: the flat series quoted at 2 against \<open>min_price = 5\<close>; the same series quoted at
  10 is emitted under \<open>breakout_config\<close>, so the price alone excludes it.
\<close>

theorem filter_gate_precedes_scoring_witness:
  "current_price_of penny_data = 2 \<and> min_price breakout_config = 5
   \<and> analyze_stock breakout_config fmt_blank (asc ''AAA'') (Some penny_data) (100, 0) = None
   \<and> map_option score
        (analyze_stock breakout_config fmt_blank (asc ''AAA'') (Some flat_data) (100, 0))
      = Some 60"
proof -
  have p: "current_price_of penny_data = 2"
    by (simp add: current_price_of_def penny_data_def)
  have m: "min_price breakout_config = 5"
    by (simp add: breakout_config_def default_config_def)
  have h: "current_price_of penny_data < min_price breakout_config
           \<or> current_price_of penny_data > max_price breakout_config
           \<or> (\<exists>a. avg_volume_of penny_data = Inr a \<and> a < min_avg_volume breakout_config)"
    by (simp add: p m)
  from filter_gate_precedes_scoring [OF h, of fmt_blank "asc ''AAA''" "(100, 0)"] p m
  show ?thesis by (simp add: breakout_flat)
qed

subsection \<open>C6: the emission gate and the grades\<close>

text \<open>
  C6, as stated, fails where \<open>min_score\<close> is below 40: \<open>check_signal_quality\<close> compares
  the score with the constants 70, 50 and 40, not with \<open>min_score\<close>. Under
  \<open>min_score = 20\<close> the flat series is emitted with score 20 and grade D.
\<close>

theorem grade_d_emitted_counterexample:
  "min_score low_gate_config = 20
   \<and> map_option score
        (analyze_stock low_gate_config fmt_blank (asc ''AAA'') (Some flat_data) (100, 0))
      = Some 20
   \<and> map_option signal_quality
        (analyze_stock low_gate_config fmt_blank (asc ''AAA'') (Some flat_data) (100, 0))
      = Some GradeD"
proof -
  have "min_score low_gate_config = 20" by (simp add: low_gate_config_def)
  then show ?thesis by (simp add: low_gate_flat)
qed

text \<open>
  C6 (amended): when the series has 60 closes, the filter gate passes and the rules
  evaluate without an exception to the tags \<open>tags\<close> and the score \<open>sc\<close>, a signal is
  emitted iff at least one tag was appended and \<open>sc \<ge> min_score\<close>. The emitted signal
  carries that score and those tags; its grade is A iff at least 2 tags are strong and
  \<open>sc \<ge> 70\<close>, B iff it is not A and at least 1 tag is strong and \<open>sc \<ge> 50\<close>, C iff it is
  neither and \<open>sc \<ge> 40\<close>, and D iff \<open>sc < 40\<close>. Grade D does not appear on an emitted
  signal when \<open>min_score\<close> is at least 40, as in the default configuration. A tag is
  strong when it contains one of the three strings of \<open>strong_signals\<close>; with a float
  formatting that writes ASCII characters only these are the tags of the MA and the MACD
  golden cross, of the volume surge, and the two 52-week tags (breakout and near-high),
  and not the 20-day breakout.
\<close>

theorem emission_gate_and_grades:
  assumes long: "60 \<le> length (closes_of d)"
    and price: "min_price cfg \<le> current_price_of d" "current_price_of d \<le> max_price cfg"
    and vol: "avg_volume_of d = Inr av" "min_avg_volume cfg \<le> av"
    and rules: "score_rules cfg (closes_of d) (volumes_of d) (highs_of d)
                  (current_price_of d) av = Inr (tags, sc, td)"
  shows "(analyze_stock cfg fmt ticker (Some d) now \<noteq> None
            \<longleftrightarrow> tags \<noteq> [] \<and> min_score cfg \<le> sc)
    \<and> (\<forall>s. analyze_stock cfg fmt ticker (Some d) now = Some s \<longrightarrow>
          score s = sc \<and> signals s = map (tag_text fmt) tags
          \<and> (signal_quality s = GradeA \<longleftrightarrow> 2 \<le> strong_count (signals s) \<and> 70 \<le> sc)
          \<and> (signal_quality s = GradeB \<longleftrightarrow>
                \<not> (2 \<le> strong_count (signals s) \<and> 70 \<le> sc)
                \<and> 1 \<le> strong_count (signals s) \<and> 50 \<le> sc)
          \<and> (signal_quality s = GradeC \<longleftrightarrow>
                \<not> (2 \<le> strong_count (signals s) \<and> 70 \<le> sc)
                \<and> \<not> (1 \<le> strong_count (signals s) \<and> 50 \<le> sc) \<and> 40 \<le> sc)
          \<and> (signal_quality s = GradeD \<longleftrightarrow> sc < 40)
          \<and> (40 \<le> min_score cfg \<longrightarrow> signal_quality s \<noteq> GradeD)
          \<and> ((\<forall>digits x. \<forall>c \<in> set (fmt digits x). c < 128) \<longrightarrow>
                strong_count (signals s) = int (length (filter is_strong_tag tags))))"
proof -
  define out where "out = analyze_stock cfg fmt ticker (Some d) now"
  have gate: "\<not> length (closes_of d) < 60"
    "\<not> (current_price_of d < min_price cfg \<or> max_price cfg < current_price_of d)"
    "\<not> av < min_avg_volume cfg"
    using long price vol(2) by auto
  have emit: "tags \<noteq> [] \<and> min_score cfg \<le> sc \<Longrightarrow>
      \<exists>s. out = Some s \<and> score s = sc \<and> signals s = map (tag_text fmt) tags
           \<and> signal_quality s = check_signal_quality (map (tag_text fmt) tags) sc"
    unfolding out_def using gate vol(1) rules
    by (simp add: analyze_stock_def analyze_body_def Let_def)
  have drop: "\<not> (tags \<noteq> [] \<and> min_score cfg \<le> sc) \<Longrightarrow> out = None"
    unfolding out_def using gate vol(1) rules
    by (simp add: analyze_stock_def analyze_body_def Let_def)
  have iff: "out \<noteq> None \<longleftrightarrow> tags \<noteq> [] \<and> min_score cfg \<le> sc"
    using emit drop by (cases "tags \<noteq> [] \<and> min_score cfg \<le> sc") auto
  have grades: "score s = sc \<and> signals s = map (tag_text fmt) tags
          \<and> (signal_quality s = GradeA \<longleftrightarrow> 2 \<le> strong_count (signals s) \<and> 70 \<le> sc)
          \<and> (signal_quality s = GradeB \<longleftrightarrow>
                \<not> (2 \<le> strong_count (signals s) \<and> 70 \<le> sc)
                \<and> 1 \<le> strong_count (signals s) \<and> 50 \<le> sc)
          \<and> (signal_quality s = GradeC \<longleftrightarrow>
                \<not> (2 \<le> strong_count (signals s) \<and> 70 \<le> sc)
                \<and> \<not> (1 \<le> strong_count (signals s) \<and> 50 \<le> sc) \<and> 40 \<le> sc)
          \<and> (signal_quality s = GradeD \<longleftrightarrow> sc < 40)
          \<and> (40 \<le> min_score cfg \<longrightarrow> signal_quality s \<noteq> GradeD)
          \<and> ((\<forall>digits x. \<forall>c \<in> set (fmt digits x). c < 128) \<longrightarrow>
                strong_count (signals s) = int (length (filter is_strong_tag tags)))"
    if s: "out = Some s" for s
  proof -
    from s iff have ok: "tags \<noteq> [] \<and> min_score cfg \<le> sc" by simp
    from emit [OF ok] s
    have f: "score s = sc" "signals s = map (tag_text fmt) tags"
      "signal_quality s = check_signal_quality (signals s) sc"
      by auto
    have st: "(\<forall>digits x. \<forall>c \<in> set (fmt digits x). c < 128) \<longrightarrow>
                strong_count (signals s) = int (length (filter is_strong_tag tags))"
      unfolding f(2) using strong_count_tags [of fmt tags] by blast
    have gr: "(signal_quality s = GradeA \<longleftrightarrow> 2 \<le> strong_count (signals s) \<and> 70 \<le> sc)
          \<and> (signal_quality s = GradeB \<longleftrightarrow>
                \<not> (2 \<le> strong_count (signals s) \<and> 70 \<le> sc)
                \<and> 1 \<le> strong_count (signals s) \<and> 50 \<le> sc)
          \<and> (signal_quality s = GradeC \<longleftrightarrow>
                \<not> (2 \<le> strong_count (signals s) \<and> 70 \<le> sc)
                \<and> \<not> (1 \<le> strong_count (signals s) \<and> 50 \<le> sc) \<and> 40 \<le> sc)
          \<and> (signal_quality s = GradeD \<longleftrightarrow> sc < 40)
          \<and> (40 \<le> min_score cfg \<longrightarrow> signal_quality s \<noteq> GradeD)"
      using ok by (auto simp: f(3) check_signal_quality_def)
    from f(1) f(2) gr st show ?thesis by blast
  qed
  from iff grades show ?thesis unfolding out_def by blast
qed

text \<open>
  Witness: under \<open>breakout_config\<close> (entry score 40) the flat series passes the gate and
  is emitted with score 60 and grade B: one strong tag, the 52-week breakout.
\<close>

theorem emission_gate_and_grades_witness:
  "60 \<le> length (closes_of flat_data)
   \<and> score_rules breakout_config (closes_of flat_data) (volumes_of flat_data)
        (highs_of flat_data) (current_price_of flat_data) 2000000
      = Inr ([Breakout52w 1, Breakout20d], 60, Declining)
   \<and> analyze_stock breakout_config fmt_blank (asc ''AAA'') (Some flat_data) (100, 0) \<noteq> None
   \<and> map_option signal_quality
        (analyze_stock breakout_config fmt_blank (asc ''AAA'') (Some flat_data) (100, 0))
      = Some GradeB"
proof -
  have long: "60 \<le> length (closes_of flat_data)" by (simp add: flat_series)
  have price: "min_price breakout_config \<le> current_price_of flat_data"
    "current_price_of flat_data \<le> max_price breakout_config"
    by (simp_all add: flat_gate breakout_config_def default_config_def)
  have vol: "avg_volume_of flat_data = Inr 2000000" "min_avg_volume breakout_config \<le> 2000000"
    by (simp_all add: flat_gate breakout_config_def default_config_def)
  have rules: "score_rules breakout_config (closes_of flat_data) (volumes_of flat_data)
        (highs_of flat_data) (current_price_of flat_data) 2000000
      = Inr ([Breakout52w 1, Breakout20d], 60, Declining)"
    unfolding breakout_config_eq flat_series flat_gate flat_score_rules
    by (simp add: default_config_def)
  have ms: "tags \<noteq> [] \<and> min_score breakout_config \<le> 60"
    if "tags = [Breakout52w 1, Breakout20d]" for tags
    using that by (simp add: breakout_config_def default_config_def)
  from emission_gate_and_grades
    [OF long price vol rules, of fmt_blank "asc ''AAA''" "(100, 0)"] ms long rules
  show ?thesis by (simp add: breakout_flat)
qed

subsection \<open>C1: determinism\<close>

text \<open>
  C1, as stated, fails in the \<open>timestamp\<close> field: the signal is stamped with
  \<open>datetime.now()\<close>, so two invocations on the same data at different moments emit
  signals that differ there.
\<close>

theorem timestamp_differs_counterexample:
  "map_option timestamp
     (analyze_stock low_gate_config fmt_blank (asc ''AAA'') (Some flat_data) (100, 0))
     = Some (100, 0)
   \<and> map_option timestamp
     (analyze_stock low_gate_config fmt_blank (asc ''AAA'') (Some flat_data) (100, 1))
     = Some (100, 1)
   \<and> analyze_stock low_gate_config fmt_blank (asc ''AAA'') (Some flat_data) (100, 0)
     \<noteq> analyze_stock low_gate_config fmt_blank (asc ''AAA'') (Some flat_data) (100, 1)"
  by (simp add: low_gate_flat)

lemma analyze_body_clock:
  "analyze_body cfg fmt ticker d now2
     = map_sum (\<lambda>e. e) (map_option (\<lambda>s. s\<lparr>timestamp := now2\<rparr>))
         (analyze_body cfg fmt ticker d now1)"
proof (cases "length (closes_of d) < 60")
  case True
  then show ?thesis by (simp add: analyze_body_def Let_def)
next
  case long: False
  show ?thesis
  proof (cases "current_price_of d < min_price cfg \<or> current_price_of d > max_price cfg")
    case True
    with long show ?thesis by (simp add: analyze_body_def Let_def)
  next
    case gate: False
    show ?thesis
    proof (cases "avg_volume_of d")
      case (Inl e)
      with long gate show ?thesis by (simp add: analyze_body_def Let_def)
    next
      case (Inr a)
      show ?thesis
      proof (cases "score_rules cfg (closes_of d) (volumes_of d) (highs_of d)
                      (current_price_of d) a")
        case (Inl e)
        with long gate Inr show ?thesis by (simp add: analyze_body_def Let_def)
      next
        case r: (Inr res)
        obtain tags sc td where res: "res = (tags, sc, td)" by (cases res)
        with long gate Inr r show ?thesis by (simp add: analyze_body_def Let_def)
      qed
    qed
  qed
qed

text \<open>
  C1 (amended): two invocations of \<open>analyze_stock\<close> on the same symbol, the same response
  of the provider and the same configuration agree on whether a signal is emitted, and the
  two signals agree in every field except \<open>timestamp\<close>, which is the clock reading of
  each invocation: the second result is the first with its timestamp replaced.
\<close>

theorem analysis_deterministic_up_to_timestamp:
  "analyze_stock cfg fmt ticker data now2
     = map_option (\<lambda>s. s\<lparr>timestamp := now2\<rparr>) (analyze_stock cfg fmt ticker data now1)"
proof (cases data)
  case None
  then show ?thesis by (simp add: analyze_stock_def)
next
  case (Some d)
  show ?thesis
    using analyze_body_clock [of cfg fmt ticker d now2 now1]
    by (cases "analyze_body cfg fmt ticker d now1") (simp_all add: analyze_stock_def Some)
qed

text \<open>Witness: the flat series under \<open>breakout_config\<close>, analysed at two moments.\<close>

theorem analysis_deterministic_up_to_timestamp_witness:
  "analyze_stock breakout_config fmt_blank (asc ''AAA'') (Some flat_data) (100, 1)
     = map_option (\<lambda>s. s\<lparr>timestamp := (100, 1)\<rparr>)
         (analyze_stock breakout_config fmt_blank (asc ''AAA'') (Some flat_data) (100, 0))
   \<and> map_option score
       (analyze_stock breakout_config fmt_blank (asc ''AAA'') (Some flat_data) (100, 1))
     = Some 60"
  using analysis_deterministic_up_to_timestamp
    [of breakout_config fmt_blank "asc ''AAA''" "Some flat_data" "(100, 1)" "(100, 0)"]
  by (simp add: breakout_flat)

section \<open>Screening orchestrator: proofs\<close>

text \<open>
  The loop over the completed tasks: the results grow by the signals of the tasks, the
  processed counter by the number of tasks, the failed counter by the number of tasks
  without a signal.
\<close>

lemma fold_run_task:
  "fold (run_task cfg fmt env symbols) order (rs, c)
   = (rs @ List.map_filter (task_result cfg fmt env symbols) order,
      c\<lparr>processed_count := processed_count c + int (length order),
        failed_count := failed_count c
          + int (length (filter (\<lambda>i. task_result cfg fmt env symbols i = None) order))\<rparr>)"
proof (induction order arbitrary: rs c)
  case Nil
  then show ?case by (simp add: map_filter_simps)
next
  case (Cons i order)
  show ?case
  proof (cases "task_result cfg fmt env symbols i")
    case None
    then have "run_task cfg fmt env symbols i (rs, c)
        = (rs, c\<lparr>processed_count := processed_count c + 1,
                  failed_count := failed_count c + 1\<rparr>)"
      by (simp add: run_task_def analyze_with_tracking_def task_result_def Let_def)
    with None show ?thesis by (simp add: Cons.IH map_filter_simps)
  next
    case (Some s)
    then have "run_task cfg fmt env symbols i (rs, c)
        = (rs @ [s], c\<lparr>processed_count := processed_count c + 1\<rparr>)"
      by (simp add: run_task_def analyze_with_tracking_def task_result_def Let_def)
    with Some show ?thesis by (simp add: Cons.IH map_filter_simps)
  qed
qed

lemma length_map_filter_split:
  "length (List.map_filter f xs) + length (filter (\<lambda>x. f x = None) xs) = length xs"
  by (induction xs) (auto simp: map_filter_simps split: option.splits)

lemma length_filter_mset: "mset xs = mset ys \<Longrightarrow> length (filter P xs) = length (filter P ys)"
proof -
  assume "mset xs = mset ys"
  then have "filter_mset P (mset xs) = filter_mset P (mset ys)" by simp
  then have "mset (filter P xs) = mset (filter P ys)" by simp
  then show ?thesis by (rule mset_eq_length)
qed

text \<open>
  C10: when every task of the run completes once (the completion order is a permutation
  of the task indices), the statistics of the run satisfy: \<open>processed_stocks\<close> is the
  number of symbols, \<open>successful_stocks + failed_stocks = processed_stocks\<close>,
  \<open>successful_stocks = signals_found\<close>, and \<open>failed_stocks\<close> is the number of tasks whose
  analysis gave no signal, for whatever reason.
\<close>

theorem run_statistics_invariant:
  assumes "mset (env_order env) = mset [0..<length symbols]"
  shows "processed_stocks (snd (screen_stocks cfg fmt env symbols)) = int (length symbols)
    \<and> successful_stocks (snd (screen_stocks cfg fmt env symbols))
        + failed_stocks (snd (screen_stocks cfg fmt env symbols))
      = processed_stocks (snd (screen_stocks cfg fmt env symbols))
    \<and> successful_stocks (snd (screen_stocks cfg fmt env symbols))
      = signals_found (snd (screen_stocks cfg fmt env symbols))
    \<and> signals_found (snd (screen_stocks cfg fmt env symbols))
      = int (length (fst (screen_stocks cfg fmt env symbols)))
    \<and> failed_stocks (snd (screen_stocks cfg fmt env symbols))
      = int (length (filter (\<lambda>i. task_result cfg fmt env symbols i = None)
                       [0..<length symbols]))"
proof -
  define f where "f = task_result cfg fmt env symbols"
  define order where "order = env_order env"
  have len: "length order = length symbols"
    using assms mset_eq_length [of order "[0..<length symbols]"] by (simp add: order_def)
  have fail: "length (filter (\<lambda>i. f i = None) order)
      = length (filter (\<lambda>i. f i = None) [0..<length symbols])"
    using assms unfolding order_def by (rule length_filter_mset)
  have split: "length (List.map_filter f order) + length (filter (\<lambda>i. f i = None) order)
      = length order"
    by (rule length_map_filter_split)
  have run: "fold (run_task cfg fmt env symbols) order
        ([], \<lparr>processed_count = 0, failed_count = 0\<rparr>)
      = (List.map_filter f order,
         \<lparr>processed_count = int (length order),
          failed_count = int (length (filter (\<lambda>i. f i = None) order))\<rparr>)"
    unfolding f_def by (simp add: fold_run_task)
  have p: "processed_stocks (snd (screen_stocks cfg fmt env symbols)) = int (length order)"
    and fl: "failed_stocks (snd (screen_stocks cfg fmt env symbols))
      = int (length (filter (\<lambda>i. f i = None) order))"
    and su: "successful_stocks (snd (screen_stocks cfg fmt env symbols))
      = int (length order) - int (length (filter (\<lambda>i. f i = None) order))"
    and sg: "signals_found (snd (screen_stocks cfg fmt env symbols))
      = int (length (List.map_filter f order))"
    and rs: "length (fst (screen_stocks cfg fmt env symbols))
      = length (List.map_filter f order)"
    by (simp_all add: screen_stocks_def Let_def order_def [symmetric] run)
  from split have "int (length order) - int (length (filter (\<lambda>i. f i = None) order))
      = int (length (List.map_filter f order))"
    by linarith
  with p fl su sg rs len fail show ?thesis unfolding f_def by simp
qed

text \<open>
  Witness: three symbols under \<open>low_gate_config\<close>. The provider has nothing for the first
  and three sessions for the second; the third is the flat series and yields a signal.
  Three processed, one successful, two failed, one signal found.
\<close>

theorem run_statistics_invariant_witness:
  "mset (env_order three_env) = mset [0..<length three_symbols]
   \<and> processed_stocks (snd (screen_stocks low_gate_config fmt_blank three_env three_symbols)) = 3
   \<and> failed_stocks (snd (screen_stocks low_gate_config fmt_blank three_env three_symbols)) = 2
   \<and> successful_stocks (snd (screen_stocks low_gate_config fmt_blank three_env three_symbols)) = 1
   \<and> signals_found (snd (screen_stocks low_gate_config fmt_blank three_env three_symbols)) = 1"
proof -
  have u: "[0..<length three_symbols] = [0, 1, 2]"
    by (simp add: three_symbols_def upt_rec)
  have h: "mset (env_order three_env) = mset [0..<length three_symbols]"
    unfolding u by (simp add: three_env_def)
  have t0: "task_result low_gate_config fmt_blank three_env three_symbols 0 = None"
    by (simp add: task_result_def three_env_def analyze_stock_def)
  have "length (closes_of short_data) < 60"
    by (simp add: closes_of_def short_data_def map_filter_simps)
  then have t1: "task_result low_gate_config fmt_blank three_env three_symbols 1 = None"
    by (simp add: task_result_def three_env_def analyze_stock_def analyze_body_def Let_def)
  have t2: "task_result low_gate_config fmt_blank three_env three_symbols 2 \<noteq> None"
    by (simp add: task_result_def three_env_def low_gate_flat)
  have n: "length (filter (\<lambda>i. task_result low_gate_config fmt_blank three_env three_symbols i
             = None) [0..<length three_symbols]) = 2"
    unfolding u using t0 t1 t2 by simp
  have l: "length three_symbols = 3" by (simp add: three_symbols_def)
  from run_statistics_invariant [OF h, of low_gate_config fmt_blank] h n l
  show ?thesis by simp
qed

end
